theory Spec2Isabelle
  imports Main
begin

section \<open>Common conventions\<close>

text \<open>
  Strings of the TypeScript source are \<open>string\<close>s (lists of characters). A value that
  the source tests with \<open>!x\<close> is falsy when it is \<open>undefined\<close> or the empty string;
  a value that may be \<open>undefined\<close> is an \<open>option\<close>. \<open>Date.now()\<close> is the number of
  milliseconds since the epoch, a natural number; a function that reads the clock takes
  the instant of the call as its argument \<open>now\<close>. An \<open>async\<close> function is the
  function of its result and of the state it leaves; logging is left out.
\<close>

section \<open>middleware/auth.ts\<close>

datatype role = Host | Guest

fun roleName :: "role \<Rightarrow> string" where
  "roleName Host = ''host''"
| "roleName Guest = ''guest''"

record JwtPayload =
  userId :: string
  roomId :: string
  role :: role
  exp :: nat

text \<open>
  \<open>AuthResult\<close> of the source is an object with a \<open>success\<close> flag; with
  \<open>success: true\<close> it carries \<open>userId\<close>, \<open>roomId\<close> and \<open>role\<close>, with
  \<open>success: false\<close> the \<open>error\<close> string.
\<close>

datatype AuthResult = AuthOk string string role | AuthFail string

subsection \<open>The jsonwebtoken dependency\<close>

text \<open>
  The library is not part of the repository. It is taken as an ideal signature
  scheme: a token string is either the compact serialisation of a payload signed with
  some key (\<open>Jws key payload\<close>) or any other string (\<open>Opaque s\<close>, the empty
  string included). \<open>jwt.verify\<close> throws \<open>JsonWebTokenError\<close> on a string that is
  no token or on a signature made with another key, and \<open>TokenExpiredError\<close> when
  the clock in seconds, \<open>floor(Date.now() / 1000)\<close>, has reached the payload's
  \<open>exp\<close>, which the library reads as seconds.
\<close>

datatype token = Opaque string | Jws string JwtPayload

datatype jwt_error = TokenExpiredError | JsonWebTokenError | OtherError

definition jwt_sign :: "JwtPayload \<Rightarrow> string \<Rightarrow> token" where
  "jwt_sign payload secret = Jws secret payload"

fun jwt_verify :: "token \<Rightarrow> string \<Rightarrow> nat \<Rightarrow> jwt_error + JwtPayload" where
  "jwt_verify (Opaque s) secret now = Inl JsonWebTokenError"
| "jwt_verify (Jws key payload) secret now =
     (if key \<noteq> secret then Inl JsonWebTokenError
      else if exp payload \<le> now div 1000 then Inl TokenExpiredError
      else Inr payload)"

subsection \<open>extractRoomIdFromDocumentName\<close>

text \<open>
  The source matches \<open>/^room:([^:]+):/\<close>: the text \<open>room:\<close> at the start, then the
  longest non-empty run of characters other than the colon (the group is greedy, and
  giving characters back cannot help, since the run holds no colon), then a colon.
\<close>

definition extractRoomIdFromDocumentName :: "string \<Rightarrow> string option" where
  "extractRoomIdFromDocumentName documentName =
     (if take 5 documentName = ''room:'' then
        (let rest = drop 5 documentName;
             seg = takeWhile (\<lambda>c. c \<noteq> CHR '':'') rest;
             after = dropWhile (\<lambda>c. c \<noteq> CHR '':'') rest
         in if seg \<noteq> [] \<and> after \<noteq> [] then Some seg else None)
      else None)"

subsection \<open>verifyToken, generateToken, authenticateForDocument\<close>

definition verifyToken :: "string \<Rightarrow> token \<Rightarrow> nat \<Rightarrow> AuthResult" where
  "verifyToken jwtSecret tok now =
     (case jwt_verify tok jwtSecret now of
        Inr decoded \<Rightarrow>
          if userId decoded = [] \<or> roomId decoded = [] \<or> roleName (role decoded) = []
          then AuthFail ''Invalid token payload''
          else if exp decoded \<noteq> 0 \<and> exp decoded < now
          then AuthFail ''Token expired''
          else AuthOk (userId decoded) (roomId decoded) (role decoded)
      | Inl TokenExpiredError \<Rightarrow> AuthFail ''Token expired''
      | Inl JsonWebTokenError \<Rightarrow> AuthFail ''Invalid token''
      | Inl OtherError \<Rightarrow> AuthFail ''Authentication failed'')"

definition generateToken :: "string \<Rightarrow> string \<Rightarrow> string \<Rightarrow> role \<Rightarrow> nat \<Rightarrow> token \<times> nat" where
  "generateToken jwtSecret uid rid r now =
     (let expiresAt = now + 7 * 24 * 60 * 60 * 1000;
          payload = \<lparr>userId = uid, roomId = rid, role = r, exp = expiresAt\<rparr>
      in (jwt_sign payload jwtSecret, expiresAt))"

text \<open>
  The \<open>token\<close> argument of \<open>authenticateForDocument\<close> is \<open>string | undefined\<close>;
  \<open>!token\<close> holds for \<open>undefined\<close> and for the empty string.
\<close>

definition noToken :: "token option \<Rightarrow> bool" where
  "noToken t = (case t of None \<Rightarrow> True | Some (Opaque s) \<Rightarrow> s = [] | Some (Jws k p) \<Rightarrow> False)"

definition authenticateForDocument :: "string \<Rightarrow> token option \<Rightarrow> string \<Rightarrow> nat \<Rightarrow> AuthResult" where
  "authenticateForDocument jwtSecret t documentName now =
     (if noToken t then AuthFail ''Missing authentication token''
      else case verifyToken jwtSecret (the t) now of
        AuthFail e \<Rightarrow> AuthFail e
      | AuthOk uid rid r \<Rightarrow>
          (case extractRoomIdFromDocumentName documentName of
             None \<Rightarrow> AuthFail ''Invalid document name format''
           | Some documentRoomId \<Rightarrow>
               if rid \<noteq> documentRoomId then AuthFail ''Room ID mismatch''
               else AuthOk uid rid r))"

text \<open>
  \<open>onAuthenticate\<close> throws the error of a failed result and otherwise returns the
  user it stores in the connection's context.
\<close>

record user =
  u_userId :: string
  u_role :: role

definition onAuthenticate :: "string \<Rightarrow> token option \<Rightarrow> string \<Rightarrow> nat \<Rightarrow> string + user" where
  "onAuthenticate jwtSecret t documentName now =
     (case authenticateForDocument jwtSecret t documentName now of
        AuthFail e \<Rightarrow> Inl (if e = [] then ''Authentication failed'' else e)
      | AuthOk uid rid r \<Rightarrow> Inr \<lparr>u_userId = uid, u_role = r\<rparr>)"

section \<open>Numbers and their decimal text\<close>

text \<open>
  A JavaScript number that the code uses as a count is an integer or \<open>NaN\<close>:
  \<open>jsnum\<close> is \<open>int option\<close> with \<open>None\<close> for \<open>NaN\<close>. (Counts stay far below
  \<open>2^53\<close>, where the doubles of the source are exact.) \<open>showNat\<close> and \<open>showInt\<close>
  are \<open>toString()\<close> and template interpolation of an integer; \<open>parseInt10\<close> is
  \<open>parseInt(s, 10)\<close>: leading white space is skipped, one sign is read, then the
  longest run of decimal digits; without a digit the result is \<open>NaN\<close>.
\<close>

type_synonym jsnum = "int option"

definition digitChar :: "nat \<Rightarrow> char" where
  "digitChar d = ''0123456789'' ! d"

definition isDigit :: "char \<Rightarrow> bool" where
  "isDigit c = (c \<in> set ''0123456789'')"

definition digitVal :: "char \<Rightarrow> nat" where
  "digitVal c = length (takeWhile (\<lambda>x. x \<noteq> c) ''0123456789'')"

fun showNat :: "nat \<Rightarrow> string" where
  "showNat n = (if n < 10 then [digitChar n] else showNat (n div 10) @ [digitChar (n mod 10)])"

declare showNat.simps [simp del]

definition showInt :: "int \<Rightarrow> string" where
  "showInt i = (if i < 0 then CHR ''-'' # showNat (nat (- i)) else showNat (nat i))"

definition numToString :: "jsnum \<Rightarrow> string" where
  "numToString n = (case n of None \<Rightarrow> ''NaN'' | Some i \<Rightarrow> showInt i)"

definition isSpace :: "char \<Rightarrow> bool" where
  "isSpace c = (c \<in> set [CHR '' '', CHR 0x09, CHR 0x0A, CHR 0x0B, CHR 0x0C, CHR 0x0D])"

definition parseInt10 :: "string \<Rightarrow> jsnum" where
  "parseInt10 s =
     (let t = dropWhile isSpace s;
          neg = (case t of c # r \<Rightarrow> c = CHR ''-'' | [] \<Rightarrow> False);
          u = (case t of c # r \<Rightarrow> if c = CHR ''-'' \<or> c = CHR ''+'' then r else t | [] \<Rightarrow> t);
          ds = takeWhile isDigit u
      in if ds = [] then None
         else Some ((if neg then - 1 else 1) * int (foldl (\<lambda>a c. 10 * a + digitVal c) 0 ds)))"

definition jsAdd :: "jsnum \<Rightarrow> int \<Rightarrow> jsnum" where
  "jsAdd n k = map_option (\<lambda>i. i + k) n"

text \<open>A comparison with \<open>NaN\<close> is false.\<close>

definition jsGe :: "jsnum \<Rightarrow> int \<Rightarrow> bool" where
  "jsGe n k = (case n of None \<Rightarrow> False | Some i \<Rightarrow> k \<le> i)"

definition jsGt :: "jsnum \<Rightarrow> int \<Rightarrow> bool" where
  "jsGt n k = (case n of None \<Rightarrow> False | Some i \<Rightarrow> k < i)"

section \<open>config.ts\<close>

record Config =
  jwtSecret :: string
  rateLimitMessagesPerMinute :: int
  rateLimitConnectionsPerIp :: int
  rateLimitRoomMessagesPerMinute :: int
  rateLimitHttpRequestsPerMinute :: int

section \<open>utils/redis.ts: the state store\<close>

text \<open>
  Modelled from the spec: \<open>utils/redis.ts\<close> (the tiered state store and the room
  helpers built on it) is not among the sources. The definitions of this section
  follow the spec's contract \<open>get\<close>, \<open>set\<close> with expiry, \<open>exists\<close>,
  \<open>incrementWithExpiry\<close> ("creates at 1 with the given ttl if absent, otherwise
  atomically adds 1 and preserves existing ttl") and its key naming
  \<open>roomCode:{code}\<close>, \<open>room:{roomId}:metadata\<close>, both with a TTL of 7 days.

  The store is one map from keys to a value and the TTL in seconds it was written
  with. A value is a plain text or the JSON text of a room-code mapping or of a room's
  metadata, kept as the object it encodes. Passive expiry is an action of the store's
  environment, not of the calls below. As the spec has it, a store call never raises
  to its caller, and each call is one atomic step.

  The field \<open>calls\<close> of the state is not in the program: it lists the store
  primitives called so far, so that a property can say which primitive an operation
  goes through.
\<close>

record RoomCodeMapping =
  c_roomId :: string
  c_hostUserId :: string

record RoomMetadata =
  m_roomId :: string
  m_hostUserId :: string
  members :: "string list"
  createdAt :: nat

datatype stored = Text string | CodeJson RoomCodeMapping | MetaJson RoomMetadata

datatype store_call = CallGet string | CallSet string | CallIncr string | CallExists string

record cache_entry =
  ce_members :: "string list"
  expiresAt :: nat

text \<open>
  The state of the server: the store, and the two module-level maps of the
  sources, \<open>ipConnectionCounts\<close> of \<open>rate-limit.ts\<close> and \<open>roomMetadataCache\<close>
  of \<open>room-isolation.ts\<close>.
\<close>

record world =
  kv :: "string \<Rightarrow> (stored \<times> nat option) option"
  calls :: "store_call list"
  ipConnectionCounts :: "string \<Rightarrow> jsnum option"
  roomMetadataCache :: "string \<Rightarrow> cache_entry option"

definition emptyWorld :: world where
  "emptyWorld = \<lparr>kv = (\<lambda>k. None), calls = [], ipConnectionCounts = (\<lambda>k. None),
     roomMetadataCache = (\<lambda>k. None)\<rparr>"

definition called :: "store_call \<Rightarrow> world \<Rightarrow> world" where
  "called c w = w\<lparr>calls := calls w @ [c]\<rparr>"

definition getValue :: "world \<Rightarrow> string \<Rightarrow> stored option \<times> world" where
  "getValue w key = (map_option fst (kv w key), called (CallGet key) w)"

definition setValueStored :: "world \<Rightarrow> string \<Rightarrow> stored \<Rightarrow> nat \<Rightarrow> world" where
  "setValueStored w key v ttl = called (CallSet key) (w\<lparr>kv := (kv w)(key \<mapsto> (v, Some ttl))\<rparr>)"

definition setValue :: "world \<Rightarrow> string \<Rightarrow> string \<Rightarrow> nat \<Rightarrow> world" where
  "setValue w key v ttl = setValueStored w key (Text v) ttl"


text \<open>
  What a stored text reads as in the code that fetched it: \<open>parseInt\<close> of the JSON
  text of an object is \<open>NaN\<close> (the text starts with a brace), and such a text is not
  empty.
\<close>

definition parseIntStored :: "stored \<Rightarrow> jsnum" where
  "parseIntStored v = (case v of Text s \<Rightarrow> parseInt10 s | CodeJson m \<Rightarrow> None | MetaJson m \<Rightarrow> None)"

definition truthyStored :: "stored \<Rightarrow> bool" where
  "truthyStored v = (case v of Text s \<Rightarrow> s \<noteq> [] | CodeJson m \<Rightarrow> True | MetaJson m \<Rightarrow> True)"

text \<open>
  Modelled from the spec: \<open>incrementCounter\<close> is \<open>incrementWithExpiry\<close>. The spec
  leaves open what it does on a value that is not an integer; here it counts from 0.
  The keys of the windowed counters hold nothing but what the increment wrote.
\<close>

definition incrementCounter :: "world \<Rightarrow> string \<Rightarrow> nat \<Rightarrow> int \<times> world" where
  "incrementCounter w key ttl =
     (case kv w key of
        None \<Rightarrow> (1, called (CallIncr key) (w\<lparr>kv := (kv w)(key \<mapsto> (Text (showInt 1), Some ttl))\<rparr>))
      | Some (v, t) \<Rightarrow>
          (let n = (case parseIntStored v of None \<Rightarrow> 0 | Some i \<Rightarrow> i) + 1
           in (n, called (CallIncr key) (w\<lparr>kv := (kv w)(key \<mapsto> (Text (showInt n), t))\<rparr>))))"


definition roomCodeKey :: "string \<Rightarrow> string" where
  "roomCodeKey code = ''roomCode:'' @ code"

definition roomMetadataKey :: "string \<Rightarrow> string" where
  "roomMetadataKey rid = ''room:'' @ rid @ '':metadata''"







section \<open>middleware/rate-limit.ts\<close>

record RateLimitResult =
  allowed :: bool
  remaining :: int
  resetIn :: nat

definition getCurrentMinute :: "nat \<Rightarrow> nat" where
  "getCurrentMinute now = now div 60000"

definition secondsToReset :: "nat \<Rightarrow> nat" where
  "secondsToReset now = 60 - (now div 1000) mod 60"

definition checkConnectionRateLimit :: "Config \<Rightarrow> world \<Rightarrow> string \<Rightarrow> nat \<Rightarrow> RateLimitResult \<times> world" where
  "checkConnectionRateLimit cfg w socketId now =
     (let key = ''ratelimit:conn:'' @ socketId @ '':'' @ showNat (getCurrentMinute now);
          (count, w1) = incrementCounter w key 60
      in (\<lparr>allowed = (count \<le> rateLimitMessagesPerMinute cfg),
           remaining = max 0 (rateLimitMessagesPerMinute cfg - count),
           resetIn = secondsToReset now\<rparr>, w1))"

definition checkRoomRateLimit :: "Config \<Rightarrow> world \<Rightarrow> string \<Rightarrow> nat \<Rightarrow> RateLimitResult \<times> world" where
  "checkRoomRateLimit cfg w rid now =
     (let key = ''ratelimit:room:'' @ rid @ '':'' @ showNat (getCurrentMinute now);
          (count, w1) = incrementCounter w key 60
      in (\<lparr>allowed = (count \<le> rateLimitRoomMessagesPerMinute cfg),
           remaining = max 0 (rateLimitRoomMessagesPerMinute cfg - count),
           resetIn = secondsToReset now\<rparr>, w1))"

text \<open>
  \<open>checkMessageRateLimit\<close> returns \<open>{allowed, reason}\<close>; the room's counter is
  reached only when the connection's check allowed the message.
\<close>

definition checkMessageRateLimit :: "Config \<Rightarrow> world \<Rightarrow> string \<Rightarrow> string \<Rightarrow> nat \<Rightarrow> (bool \<times> string option) \<times> world" where
  "checkMessageRateLimit cfg w socketId rid now =
     (let (connResult, w1) = checkConnectionRateLimit cfg w socketId now
      in if \<not> allowed connResult
         then ((False, Some (''Connection rate limit exceeded. Try again in ''
                 @ showNat (resetIn connResult) @ ''s'')), w1)
         else (let (roomResult, w2) = checkRoomRateLimit cfg w1 rid now
               in if \<not> allowed roomResult
                  then ((False, Some (''Room rate limit exceeded. Try again in ''
                          @ showNat (resetIn roomResult) @ ''s'')), w2)
                  else ((True, None), w2)))"

subsection \<open>The per-IP connection gauge\<close>

text \<open>
  \<open>trackIpConnection\<close> awaits \<open>getValue\<close> and goes on when the value has arrived.
  \<open>trackIpRead\<close> is the function up to that point, \<open>trackIpWrite\<close> the rest, which
  runs with the count that was read; one call on its own is the two in a row.
\<close>

definition connectionsKey :: "string \<Rightarrow> string" where
  "connectionsKey clientIp = ''connections:'' @ clientIp"

definition countOf :: "stored option \<Rightarrow> jsnum" where
  "countOf countStr =
     (case countStr of
        None \<Rightarrow> Some 0
      | Some v \<Rightarrow> if truthyStored v then parseIntStored v else Some 0)"

definition trackIpRead :: "world \<Rightarrow> string \<Rightarrow> jsnum \<times> world" where
  "trackIpRead w clientIp =
     (let (countStr, w1) = getValue w (connectionsKey clientIp) in (countOf countStr, w1))"

definition trackIpWrite :: "Config \<Rightarrow> world \<Rightarrow> string \<Rightarrow> jsnum \<Rightarrow> bool \<times> world" where
  "trackIpWrite cfg w clientIp currentCount =
     (if jsGe currentCount (rateLimitConnectionsPerIp cfg) then (False, w)
      else (let w1 = setValue w (connectionsKey clientIp) (numToString (jsAdd currentCount 1)) 3600
            in (True, w1\<lparr>ipConnectionCounts :=
                        (ipConnectionCounts w1)(clientIp \<mapsto> jsAdd currentCount 1)\<rparr>)))"

definition trackIpConnection :: "Config \<Rightarrow> world \<Rightarrow> string \<Rightarrow> bool \<times> world" where
  "trackIpConnection cfg w clientIp =
     (let (currentCount, w1) = trackIpRead w clientIp in trackIpWrite cfg w1 clientIp currentCount)"


definition releaseIpConnection :: "world \<Rightarrow> string \<Rightarrow> world" where
  "releaseIpConnection w clientIp =
     (let (countStr, w1) = getValue w (connectionsKey clientIp)
      in case countStr of
           None \<Rightarrow> w1
         | Some v \<Rightarrow>
             if truthyStored v then
               (let currentCount = parseIntStored v
                in if jsGt currentCount 0 then
                     (let w2 = setValue w1 (connectionsKey clientIp)
                                 (numToString (jsAdd currentCount (- 1))) 3600
                      in w2\<lparr>ipConnectionCounts :=
                              (ipConnectionCounts w2)(clientIp \<mapsto> jsAdd currentCount (- 1))\<rparr>)
                   else w1)
             else w1)"







subsection \<open>The HTTP rate limiter\<close>

text \<open>
  The middleware calls the store's increment inside \<open>try\<close> and falls to its
  \<open>catch\<close> when the call throws. The store of the spec never throws, so the
  middleware takes the increment as its argument \<open>incr\<close>, whose outcome is a throw or a
  count with the store after it; \<open>storeIncrement\<close> is the store's own. The request
  enters as the IP that \<open>getClientIp\<close> reads from it. The middleware sets the three
  rate-limit headers, then answers 429 or calls \<open>next()\<close>.
\<close>

datatype 'a outcome = Throws | Returns 'a

datatype decision = Next | Respond nat string

record limiter_result =
  headers :: "(string \<times> string) list"
  decision :: decision

definition storeIncrement :: "world \<Rightarrow> string \<Rightarrow> nat \<Rightarrow> (int \<times> world) outcome" where
  "storeIncrement w key ttl = Returns (incrementCounter w key ttl)"

definition httpRateLimiter ::
  "(world \<Rightarrow> string \<Rightarrow> nat \<Rightarrow> (int \<times> world) outcome) \<Rightarrow> int \<Rightarrow> string \<Rightarrow> world \<Rightarrow> string \<Rightarrow> nat
     \<Rightarrow> limiter_result \<times> world" where
  "httpRateLimiter incr requestsPerMinute keyPrefix w clientIp now =
     (let key = keyPrefix @ '':'' @ clientIp @ '':'' @ showNat (getCurrentMinute now)
      in case incr w key 60 of
           Returns (count, w1) \<Rightarrow>
             (let hs = [(''X-RateLimit-Limit'', showInt requestsPerMinute),
                        (''X-RateLimit-Remaining'', showInt (max 0 (requestsPerMinute - count))),
                        (''X-RateLimit-Reset'', showNat (secondsToReset now))]
              in if count > requestsPerMinute
                 then (\<lparr>headers = hs, decision = Respond 429 ''Too Many Requests''\<rparr>, w1)
                 else (\<lparr>headers = hs, decision = Next\<rparr>, w1))
         | Throws \<Rightarrow> (\<lparr>headers = [], decision = Next\<rparr>, w))"

definition createHttpRateLimiter ::
  "(world \<Rightarrow> string \<Rightarrow> nat \<Rightarrow> (int \<times> world) outcome) \<Rightarrow> int option \<Rightarrow> string option
     \<Rightarrow> world \<Rightarrow> string \<Rightarrow> nat \<Rightarrow> limiter_result \<times> world" where
  "createHttpRateLimiter incr requestsPerMinute keyPrefix =
     httpRateLimiter incr
       (case requestsPerMinute of None \<Rightarrow> 60 | Some n \<Rightarrow> n)
       (case keyPrefix of None \<Rightarrow> ''ratelimit:http'' | Some k \<Rightarrow> k)"


section \<open>middleware/room-isolation.ts\<close>



definition cleanupCache :: "world \<Rightarrow> nat \<Rightarrow> world" where
  "cleanupCache w now =
     w\<lparr>roomMetadataCache := (\<lambda>key.
         case roomMetadataCache w key of
           None \<Rightarrow> None
         | Some data \<Rightarrow> if expiresAt data < now then None else Some data)\<rparr>"





section \<open>api/room.ts\<close>





section \<open>index.ts: the connection hooks\<close>

text \<open>
  The transport hands each hook the connection's \<open>context\<close>. \<open>onAuthenticate\<close>
  puts the user there; \<open>onConnect\<close> adds the client's IP, which it reads from the
  request with \<open>getClientIpFromRequest\<close> and which the model takes as given. The last
  lines of the hooks copy the transport's connection count into the health report and
  are left out.
\<close>

record conn_context =
  ctx_user :: "user option"
  ctx_clientIp :: "string option"


definition onDisconnect :: "world \<Rightarrow> conn_context \<Rightarrow> world" where
  "onDisconnect w ctx =
     releaseIpConnection w
       (case ctx_clientIp ctx of
          None \<Rightarrow> ''unknown''
        | Some ip \<Rightarrow> if ip = [] then ''unknown'' else ip)"

text \<open>The limiter's verdict on a message is logged; the message is handled either way.\<close>

definition beforeHandleMessage :: "Config \<Rightarrow> world \<Rightarrow> string \<Rightarrow> string \<Rightarrow> nat \<Rightarrow> world" where
  "beforeHandleMessage cfg w documentName socketId now =
     (case extractRoomIdFromDocumentName documentName of
        None \<Rightarrow> w
      | Some rid \<Rightarrow> snd (checkMessageRateLimit cfg w socketId rid now))"

section \<open>Concrete states for the examples\<close>





section \<open>Properties of the authenticator\<close>

text \<open>From here on the theory states and proves properties of the definitions above.\<close>

lemma extract_Some_iff:
  "extractRoomIdFromDocumentName d = Some r \<longleftrightarrow>
     r \<noteq> [] \<and> CHR '':'' \<notin> set r \<and> (\<exists>suffix. d = ''room:'' @ r @ '':'' @ suffix)"
proof
  assume a: "extractRoomIdFromDocumentName d = Some r"
  let ?rest = "drop 5 d"
  from a have p: "take 5 d = ''room:''"
    by (simp add: extractRoomIdFromDocumentName_def split: if_splits)
  from a p have r: "r = takeWhile (\<lambda>c. c \<noteq> CHR '':'') ?rest"
    and ne: "r \<noteq> []" and aft: "dropWhile (\<lambda>c. c \<noteq> CHR '':'') ?rest \<noteq> []"
    by (auto simp: extractRoomIdFromDocumentName_def Let_def split: if_splits)
  from r have nocolon: "CHR '':'' \<notin> set r"
    by (auto dest: set_takeWhileD)
  from aft have "hd (dropWhile (\<lambda>c. c \<noteq> CHR '':'') ?rest) = CHR '':''"
    using hd_dropWhile [of "\<lambda>c. c \<noteq> CHR '':''" ?rest] by simp
  with aft obtain suffix where s: "dropWhile (\<lambda>c. c \<noteq> CHR '':'') ?rest = CHR '':'' # suffix"
    by (cases "dropWhile (\<lambda>c. c \<noteq> CHR '':'') ?rest") auto
  have "d = take 5 d @ ?rest" by simp
  also have "?rest = r @ CHR '':'' # suffix"
    using takeWhile_dropWhile_id [of "\<lambda>c. c \<noteq> CHR '':''" ?rest] r s by simp
  finally have "d = ''room:'' @ r @ '':'' @ suffix" using p by simp
  with ne nocolon show "r \<noteq> [] \<and> CHR '':'' \<notin> set r \<and> (\<exists>suffix. d = ''room:'' @ r @ '':'' @ suffix)"
    by blast
next
  assume "r \<noteq> [] \<and> CHR '':'' \<notin> set r \<and> (\<exists>suffix. d = ''room:'' @ r @ '':'' @ suffix)"
  then obtain suffix where ne: "r \<noteq> []" and nc: "CHR '':'' \<notin> set r"
    and d: "d = ''room:'' @ r @ '':'' @ suffix" by blast
  have tw: "takeWhile (\<lambda>c. c \<noteq> CHR '':'') (r @ CHR '':'' # suffix) = r"
    using nc by (auto simp: takeWhile_tail)
  have dw: "dropWhile (\<lambda>c. c \<noteq> CHR '':'') (r @ CHR '':'' # suffix) = CHR '':'' # suffix"
    using nc by (auto simp: dropWhile_append3)
  show "extractRoomIdFromDocumentName d = Some r"
    using ne tw dw by (simp add: extractRoomIdFromDocumentName_def d Let_def)
qed

lemma extract_no_second_colon:
  "CHR '':'' \<notin> set ident \<Longrightarrow> extractRoomIdFromDocumentName (''room:'' @ ident) = None"
  by (auto simp: extractRoomIdFromDocumentName_def Let_def)

lemma extract_empty_segment:
  "extractRoomIdFromDocumentName (''room::'' @ x) = None"
  by (simp add: extractRoomIdFromDocumentName_def Let_def)

lemma verifyToken_Ok_supplied:
  "verifyToken s tok now = AuthOk uid rid r \<Longrightarrow> \<not> noToken (Some tok)"
  by (cases tok) (auto simp: verifyToken_def noToken_def)

lemma authenticate_malformed:
  assumes "verifyToken s tok now = AuthOk uid rid r"
    and "extractRoomIdFromDocumentName d = None"
  shows "authenticateForDocument s (Some tok) d now = AuthFail ''Invalid document name format''"
  using assms verifyToken_Ok_supplied [OF assms(1)]
  by (simp add: authenticateForDocument_def)

lemma verifyToken_errors:
  "verifyToken s tok now = AuthFail e \<Longrightarrow>
     e = ''Invalid token payload'' \<or> e = ''Token expired'' \<or> e = ''Invalid token''
       \<or> e = ''Authentication failed''"
  by (auto simp: verifyToken_def split: sum.splits jwt_error.splits if_splits)

text \<open>
  Claim C10. \<open>extractRoomIdFromDocumentName d\<close> returns the roomId \<open>r\<close> exactly when
  \<open>d\<close> is \<open>room:\<close>, then a non-empty \<open>r\<close> without a colon, then a colon, then anything.
  A name \<open>room:<id>\<close> with nothing after the id, and a name \<open>room::x\<close> with an empty
  room segment, yield no roomId, and \<open>authenticateForDocument\<close> answers them with
  the malformed-target error \<open>Invalid document name format\<close> even when the token
  verifies for that very id.
\<close>

theorem C10_extract_room_id:
  "(extractRoomIdFromDocumentName d = Some r \<longleftrightarrow>
      r \<noteq> [] \<and> CHR '':'' \<notin> set r \<and> (\<exists>suffix. d = ''room:'' @ r @ '':'' @ suffix))
   \<and> (CHR '':'' \<notin> set ident \<longrightarrow>
        extractRoomIdFromDocumentName (''room:'' @ ident) = None
        \<and> (verifyToken s tok now = AuthOk uid ident ro \<longrightarrow>
             authenticateForDocument s (Some tok) (''room:'' @ ident) now
               = AuthFail ''Invalid document name format''))
   \<and> extractRoomIdFromDocumentName (''room::'' @ x) = None
   \<and> (verifyToken s tok' now' = AuthOk uid' rid' ro' \<longrightarrow>
        authenticateForDocument s (Some tok') (''room::'' @ x) now'
          = AuthFail ''Invalid document name format'')"
proof (intro conjI impI)
  show "extractRoomIdFromDocumentName d = Some r \<longleftrightarrow>
      r \<noteq> [] \<and> CHR '':'' \<notin> set r \<and> (\<exists>suffix. d = ''room:'' @ r @ '':'' @ suffix)"
    by (rule extract_Some_iff)
next
  assume "CHR '':'' \<notin> set ident"
  then show "extractRoomIdFromDocumentName (''room:'' @ ident) = None"
    by (rule extract_no_second_colon)
next
  assume "CHR '':'' \<notin> set ident" and "verifyToken s tok now = AuthOk uid ident ro"
  then show "authenticateForDocument s (Some tok) (''room:'' @ ident) now
               = AuthFail ''Invalid document name format''"
    by (intro authenticate_malformed extract_no_second_colon)
next
  show "extractRoomIdFromDocumentName (''room::'' @ x) = None"
    by (rule extract_empty_segment)
next
  assume "verifyToken s tok' now' = AuthOk uid' rid' ro'"
  then show "authenticateForDocument s (Some tok') (''room::'' @ x) now'
          = AuthFail ''Invalid document name format''"
    by (intro authenticate_malformed extract_empty_segment)
qed

theorem C10_extract_room_id_witness:
  "extractRoomIdFromDocumentName ''room:r1:main'' = Some ''r1''
   \<and> extractRoomIdFromDocumentName ''room:r1'' = None
   \<and> verifyToken ''k'' (fst (generateToken ''k'' ''u1'' ''r1'' Guest 5)) 9 = AuthOk ''u1'' ''r1'' Guest
   \<and> authenticateForDocument ''k'' (Some (fst (generateToken ''k'' ''u1'' ''r1'' Guest 5))) ''room:r1'' 9
        = AuthFail ''Invalid document name format''
   \<and> extractRoomIdFromDocumentName ''room::x'' = None
   \<and> authenticateForDocument ''k'' (Some (fst (generateToken ''k'' ''u1'' ''r1'' Guest 5))) ''room::x'' 9
        = AuthFail ''Invalid document name format''"
proof -
  let ?tok = "fst (generateToken ''k'' ''u1'' ''r1'' Guest 5)"
  have v: "verifyToken ''k'' ?tok 9 = AuthOk ''u1'' ''r1'' Guest"
    by (simp add: generateToken_def jwt_sign_def verifyToken_def Let_def)
  have nc: "CHR '':'' \<notin> set ''r1''" by simp
  note c = C10_extract_room_id [of "''room:r1:main''" "''r1''" "''r1''" "''k''" ?tok 9 "''u1''" Guest
      "''x''" ?tok 9 "''u1''" "''r1''" Guest]
  have a: "extractRoomIdFromDocumentName ''room:r1:main'' = Some ''r1''"
    using c by simp
  from c nc v show ?thesis using a by simp
qed





text \<open>
  Claim C5. \<open>authenticateForDocument\<close> returns exactly one of five answers, with the
  checks in this order: the missing-token error exactly when no token is supplied;
  otherwise the error of \<open>verifyToken\<close> (an invalid-token error, \<open>Invalid token\<close>,
  \<open>Invalid token payload\<close> or \<open>Authentication failed\<close>, or the expired error
  \<open>Token expired\<close>) exactly when verification fails; otherwise the malformed-target
  error exactly when no roomId is parsed from the document name; otherwise the
  room-mismatch error exactly when the parsed roomId differs from the token's; and
  otherwise success with the token's \<open>userId\<close>, \<open>roomId\<close> and \<open>role\<close>.
\<close>

theorem C5_authenticateForDocument_cases:
  "(authenticateForDocument s t d now = AuthFail ''Missing authentication token'' \<longleftrightarrow> noToken t)
   \<and> ((\<exists>e. authenticateForDocument s t d now = AuthFail e
          \<and> (e = ''Invalid token payload'' \<or> e = ''Invalid token'' \<or> e = ''Token expired''
               \<or> e = ''Authentication failed''))
        \<longleftrightarrow> (\<exists>tok e. t = Some tok \<and> \<not> noToken t \<and> verifyToken s tok now = AuthFail e))
   \<and> (\<forall>tok e. t = Some tok \<and> \<not> noToken t \<and> verifyToken s tok now = AuthFail e
         \<longrightarrow> authenticateForDocument s t d now = AuthFail e)
   \<and> (authenticateForDocument s t d now = AuthFail ''Invalid document name format''
        \<longleftrightarrow> (\<exists>tok uid rid r. t = Some tok \<and> \<not> noToken t \<and> verifyToken s tok now = AuthOk uid rid r
              \<and> extractRoomIdFromDocumentName d = None))
   \<and> (authenticateForDocument s t d now = AuthFail ''Room ID mismatch''
        \<longleftrightarrow> (\<exists>tok uid rid r documentRoomId. t = Some tok \<and> \<not> noToken t
              \<and> verifyToken s tok now = AuthOk uid rid r
              \<and> extractRoomIdFromDocumentName d = Some documentRoomId \<and> documentRoomId \<noteq> rid))
   \<and> (authenticateForDocument s t d now = AuthOk uid rid r
        \<longleftrightarrow> (\<exists>tok. t = Some tok \<and> \<not> noToken t \<and> verifyToken s tok now = AuthOk uid rid r
              \<and> extractRoomIdFromDocumentName d = Some rid))"
proof (cases "noToken t")
  case True
  then show ?thesis by (simp add: authenticateForDocument_def)
next
  case False
  then obtain tok where t: "t = Some tok" by (cases t) (auto simp: noToken_def)
  show ?thesis
  proof (cases "verifyToken s tok now")
    case (AuthFail e)
    with False t verifyToken_errors [OF AuthFail] show ?thesis
      by (auto simp: authenticateForDocument_def)
  next
    case (AuthOk u' r' ro')
    with False t show ?thesis
      by (cases "extractRoomIdFromDocumentName d") (auto simp: authenticateForDocument_def)
  qed
qed

theorem C5_authenticateForDocument_cases_witness:
  "authenticateForDocument ''k'' None ''room:r1:main'' 9 = AuthFail ''Missing authentication token''
   \<and> authenticateForDocument ''k'' (Some (Opaque ''x'')) ''room:r1:main'' 9 = AuthFail ''Invalid token''
   \<and> authenticateForDocument ''k''
        (Some (Jws ''k'' \<lparr>userId = ''u1'', roomId = ''r1'', role = Guest, exp = 604800005\<rparr>))
        ''room:r1:main'' 9 = AuthOk ''u1'' ''r1'' Guest"
proof (intro conjI)
  let ?tok = "Jws ''k'' \<lparr>userId = ''u1'', roomId = ''r1'', role = Guest, exp = 604800005\<rparr>"
  have n: "noToken None" by (simp add: noToken_def)
  show "authenticateForDocument ''k'' None ''room:r1:main'' 9 = AuthFail ''Missing authentication token''"
    by (rule iffD2 [OF C5_authenticateForDocument_cases [THEN conjunct1] n])
  have o: "Some (Opaque ''x'') = Some (Opaque ''x'') \<and> \<not> noToken (Some (Opaque ''x''))
      \<and> verifyToken ''k'' (Opaque ''x'') 9 = AuthFail ''Invalid token''"
    by (simp add: noToken_def verifyToken_def)
  show "authenticateForDocument ''k'' (Some (Opaque ''x'')) ''room:r1:main'' 9 = AuthFail ''Invalid token''"
    by (rule mp [OF spec [OF spec [OF C5_authenticateForDocument_cases
          [THEN conjunct2, THEN conjunct2, THEN conjunct1]]] o])
  have v: "\<exists>tok. Some ?tok = Some tok \<and> \<not> noToken (Some ?tok)
      \<and> verifyToken ''k'' tok 9 = AuthOk ''u1'' ''r1'' Guest
      \<and> extractRoomIdFromDocumentName ''room:r1:main'' = Some ''r1''"
    by (rule exI [of _ ?tok]) (simp add: noToken_def verifyToken_def extractRoomIdFromDocumentName_def)
  show "authenticateForDocument ''k'' (Some ?tok) ''room:r1:main'' 9 = AuthOk ''u1'' ''r1'' Guest"
    by (rule iffD2 [OF C5_authenticateForDocument_cases
          [THEN conjunct2, THEN conjunct2, THEN conjunct2, THEN conjunct2, THEN conjunct2] v])
qed


section \<open>Properties of the store and the room API\<close>

lemma called_fields [simp]:
  "kv (called c w) = kv w"
  "ipConnectionCounts (called c w) = ipConnectionCounts w"
  "roomMetadataCache (called c w) = roomMetadataCache w"
  "calls (called c w) = calls w @ [c]"
  by (simp_all add: called_def)

lemma getValue_fields [simp]:
  "fst (getValue w k) = map_option fst (kv w k)"
  "kv (snd (getValue w k)) = kv w"
  "ipConnectionCounts (snd (getValue w k)) = ipConnectionCounts w"
  "roomMetadataCache (snd (getValue w k)) = roomMetadataCache w"
  "calls (snd (getValue w k)) = calls w @ [CallGet k]"
  by (simp_all add: getValue_def)

lemma setValueStored_fields [simp]:
  "kv (setValueStored w k v ttl) = (kv w)(k \<mapsto> (v, Some ttl))"
  "ipConnectionCounts (setValueStored w k v ttl) = ipConnectionCounts w"
  "roomMetadataCache (setValueStored w k v ttl) = roomMetadataCache w"
  "calls (setValueStored w k v ttl) = calls w @ [CallSet k]"
  by (simp_all add: setValueStored_def)




lemma key_distinct [simp]:
  "roomCodeKey code \<noteq> roomMetadataKey rid"
  "roomMetadataKey rid \<noteq> roomCodeKey code"
  by (simp_all add: roomCodeKey_def roomMetadataKey_def)

lemma roomMetadataKey_inj [simp]: "roomMetadataKey a = roomMetadataKey b \<longleftrightarrow> a = b"
  by (simp add: roomMetadataKey_def)

lemma roomCodeKey_inj [simp]: "roomCodeKey a = roomCodeKey b \<longleftrightarrow> a = b"
  by (simp add: roomCodeKey_def)





























section \<open>Properties of the rate limiter\<close>

subsection \<open>Decimal text\<close>












subsection \<open>The per-IP connection gauge\<close>







lemma connectionsKey_inj [simp]: "connectionsKey a = connectionsKey b \<longleftrightarrow> a = b"
  by (simp add: connectionsKey_def)













subsection \<open>The windowed counters\<close>


lemma incrementCounter_fresh:
  "kv w key = None \<Longrightarrow> incrementCounter w key ttl
     = (1, called (CallIncr key) (w\<lparr>kv := (kv w)(key \<mapsto> (Text (showInt 1), Some ttl))\<rparr>))"
  by (simp add: incrementCounter_def)

text \<open>
  Claim C9. For every request and every behaviour of the store's increment: if the
  increment throws, the middleware calls \<open>next()\<close>, sets no header, sends no
  response and leaves the state as it was; the response 429 is sent exactly when the
  increment returns a count above the limit per minute; and there is no third
  outcome.
\<close>

theorem C9_http_limiter_fails_open:
  "(incr w ((case keyPrefix of None \<Rightarrow> ''ratelimit:http'' | Some k \<Rightarrow> k) @ '':'' @ clientIp @ '':''
             @ showNat (getCurrentMinute now)) 60 = Throws \<longrightarrow>
       createHttpRateLimiter incr requestsPerMinute keyPrefix w clientIp now
         = (\<lparr>headers = [], decision = Next\<rparr>, w))
   \<and> (decision (fst (createHttpRateLimiter incr requestsPerMinute keyPrefix w clientIp now))
         = Respond 429 ''Too Many Requests''
       \<longleftrightarrow> (\<exists>count w1.
             incr w ((case keyPrefix of None \<Rightarrow> ''ratelimit:http'' | Some k \<Rightarrow> k) @ '':'' @ clientIp @ '':''
                      @ showNat (getCurrentMinute now)) 60 = Returns (count, w1)
             \<and> count > (case requestsPerMinute of None \<Rightarrow> 60 | Some n \<Rightarrow> n)))
   \<and> (decision (fst (createHttpRateLimiter incr requestsPerMinute keyPrefix w clientIp now)) = Next
       \<or> decision (fst (createHttpRateLimiter incr requestsPerMinute keyPrefix w clientIp now))
            = Respond 429 ''Too Many Requests'')"
proof -
  let ?key = "(case keyPrefix of None \<Rightarrow> ''ratelimit:http'' | Some k \<Rightarrow> k) @ '':'' @ clientIp @ '':''
             @ showNat (getCurrentMinute now)"
  show ?thesis
  proof (cases "incr w ?key 60")
    case Throws
    then show ?thesis
      by (simp add: createHttpRateLimiter_def httpRateLimiter_def)
  next
    case (Returns p)
    obtain count w1 where p: "p = (count, w1)" by (cases p)
    show ?thesis
      using Returns p by (simp add: createHttpRateLimiter_def httpRateLimiter_def Let_def)
  qed
qed

theorem C9_http_limiter_fails_open_witness:
  "createHttpRateLimiter (\<lambda>w key ttl. Throws) (Some 0) None emptyWorld ''10.0.0.1'' 0
     = (\<lparr>headers = [], decision = Next\<rparr>, emptyWorld)
   \<and> decision (fst (createHttpRateLimiter storeIncrement (Some 0) None emptyWorld ''10.0.0.1'' 0))
     = Respond 429 ''Too Many Requests''
   \<and> decision (fst (createHttpRateLimiter storeIncrement (Some 1) None emptyWorld ''10.0.0.1'' 0)) = Next"
proof (intro conjI)
  let ?key = "(case None of None \<Rightarrow> ''ratelimit:http'' | Some k \<Rightarrow> k) @ '':'' @ ''10.0.0.1'' @ '':''
             @ showNat (getCurrentMinute 0)"
  have th: "(\<lambda>w key ttl. Throws) emptyWorld ?key 60 = (Throws :: (int \<times> world) outcome)" by simp
  show "createHttpRateLimiter (\<lambda>w key ttl. Throws) (Some 0) None emptyWorld ''10.0.0.1'' 0
     = (\<lparr>headers = [], decision = Next\<rparr>, emptyWorld)"
    by (rule mp [OF C9_http_limiter_fails_open
          [of "\<lambda>w key ttl. Throws" emptyWorld None "''10.0.0.1''" 0 "Some 0", THEN conjunct1] th])
  have fresh: "kv emptyWorld ?key = None" by (simp add: emptyWorld_def)
  have r: "storeIncrement emptyWorld ?key 60
      = Returns (1, called (CallIncr ?key) (emptyWorld\<lparr>kv := (kv emptyWorld)(?key \<mapsto> (Text (showInt 1), Some 60))\<rparr>))"
    unfolding storeIncrement_def incrementCounter_fresh [OF fresh] ..
  have over: "\<exists>count w1. storeIncrement emptyWorld ?key 60 = Returns (count, w1)
      \<and> count > (case Some 0 of None \<Rightarrow> 60 | Some n \<Rightarrow> n)"
    unfolding r by simp
  show "decision (fst (createHttpRateLimiter storeIncrement (Some 0) None emptyWorld ''10.0.0.1'' 0))
     = Respond 429 ''Too Many Requests''"
    by (rule iffD2 [OF C9_http_limiter_fails_open
          [of storeIncrement emptyWorld None "''10.0.0.1''" 0 "Some 0", THEN conjunct2, THEN conjunct1] over])
  have under: "\<not> (\<exists>count w1. storeIncrement emptyWorld ?key 60 = Returns (count, w1)
      \<and> count > (case Some 1 of None \<Rightarrow> 60 | Some n \<Rightarrow> n))"
    unfolding r by simp
  show "decision (fst (createHttpRateLimiter storeIncrement (Some 1) None emptyWorld ''10.0.0.1'' 0)) = Next"
    using C9_http_limiter_fails_open [of storeIncrement emptyWorld None "''10.0.0.1''" 0 "Some 1"] under
    by blast
qed

subsection \<open>Which store calls a counter update makes\<close>







section \<open>Properties of the connection hooks\<close>

lemma conn_meta_distinct [simp]:
  "connectionsKey ip \<noteq> roomMetadataKey rid"
  "roomMetadataKey rid \<noteq> connectionsKey ip"
  by (simp_all add: connectionsKey_def roomMetadataKey_def)

lemma track_cache [simp]:
  "roomMetadataCache (snd (trackIpConnection cfg w ip)) = roomMetadataCache w"
  by (simp add: trackIpConnection_def trackIpRead_def trackIpWrite_def getValue_def setValue_def Let_def)



lemma conn_code_distinct [simp]:
  "connectionsKey ip \<noteq> roomCodeKey code"
  "roomCodeKey code \<noteq> connectionsKey ip"
  by (simp_all add: connectionsKey_def roomCodeKey_def)







end
